theory Spec2Isabelle
  imports Main "HOL-Library.Sublist"
begin

section \<open>Text\<close>

text \<open>
  The three fixers of \<^verbatim>\<open>scripts/fixes\<close> work on Python \<^verbatim>\<open>str\<close> values. A string is
  modelled as a list of characters; a \<^typ>\<open>char\<close> stands for a code point below 256.
  The character classes are those of Python's \<^verbatim>\<open>re\<close> module on \<^verbatim>\<open>str\<close> patterns,
  restricted to that range.
\<close>

definition space_chars :: "char list" where
  "space_chars = [CHR 0x09, CHR 0x0A, CHR 0x0B, CHR 0x0C, CHR 0x0D, CHR 0x1C, CHR 0x1D,
     CHR 0x1E, CHR 0x1F, CHR 0x20, CHR 0x85, CHR 0xA0]"

definition is_space :: "char \<Rightarrow> bool" where
  "is_space c = (c \<in> set space_chars)"

definition ascii_word_chars :: "char list" where
  "ascii_word_chars =
     ''0123456789ABCDEFGHIJKLMNOPQRSTUVWXYZ_abcdefghijklmnopqrstuvwxyz''"

definition latin_word_chars :: "char list" where
  "latin_word_chars = [CHR 0xAA, CHR 0xB2, CHR 0xB3, CHR 0xB5, CHR 0xB9, CHR 0xBA,
     CHR 0xBC, CHR 0xBD, CHR 0xBE,
     CHR 0xC0, CHR 0xC1, CHR 0xC2, CHR 0xC3, CHR 0xC4, CHR 0xC5, CHR 0xC6, CHR 0xC7,
     CHR 0xC8, CHR 0xC9, CHR 0xCA, CHR 0xCB, CHR 0xCC, CHR 0xCD, CHR 0xCE, CHR 0xCF,
     CHR 0xD0, CHR 0xD1, CHR 0xD2, CHR 0xD3, CHR 0xD4, CHR 0xD5, CHR 0xD6,
     CHR 0xD8, CHR 0xD9, CHR 0xDA, CHR 0xDB, CHR 0xDC, CHR 0xDD, CHR 0xDE, CHR 0xDF,
     CHR 0xE0, CHR 0xE1, CHR 0xE2, CHR 0xE3, CHR 0xE4, CHR 0xE5, CHR 0xE6, CHR 0xE7,
     CHR 0xE8, CHR 0xE9, CHR 0xEA, CHR 0xEB, CHR 0xEC, CHR 0xED, CHR 0xEE, CHR 0xEF,
     CHR 0xF0, CHR 0xF1, CHR 0xF2, CHR 0xF3, CHR 0xF4, CHR 0xF5, CHR 0xF6,
     CHR 0xF8, CHR 0xF9, CHR 0xFA, CHR 0xFB, CHR 0xFC, CHR 0xFD, CHR 0xFE, CHR 0xFF]"

definition is_word :: "char \<Rightarrow> bool" where
  "is_word c = (c \<in> set ascii_word_chars \<or> c \<in> set latin_word_chars)"

text \<open>Python's \<^verbatim>\<open>t in s\<close> on strings: \<open>t\<close> occurs in \<open>s\<close> as a contiguous piece.\<close>

fun str_in :: "string \<Rightarrow> string \<Rightarrow> bool" where
  "str_in t [] = (t = [])"
| "str_in t (c # cs) = (prefix t (c # cs) \<or> str_in t cs)"

text \<open>
  Python's \<^verbatim>\<open>s.replace(old, new)\<close>: the occurrences of \<open>old\<close> are found from the left
  and do not overlap; an empty \<open>old\<close> matches before every character and at the end.
\<close>

function str_replace :: "string \<Rightarrow> string \<Rightarrow> string \<Rightarrow> string" where
  "str_replace old new [] = (if old = [] then new else [])"
| "str_replace old new (c # cs) =
     (if old = [] then new @ c # str_replace old new cs
      else if prefix old (c # cs)
        then new @ str_replace old new (drop (length old) (c # cs))
        else c # str_replace old new cs)"
  by pat_completeness auto
termination
  by (relation "measure (\<lambda>(old, new, s). length s)") (auto simp: Suc_le_eq)

section \<open>Regular expressions\<close>

text \<open>
  The fixers call \<^verbatim>\<open>re.sub\<close> and \<^verbatim>\<open>re.subn\<close>. The patterns they use are built from
  literal text, the classes \<^verbatim>\<open>\s\<close>, \<^verbatim>\<open>[^']\<close> and \<^verbatim>\<open>[a-z_]\<close> under \<^verbatim>\<open>*\<close> and \<^verbatim>\<open>+\<close>,
  an optional group, capture groups, one back-reference and \<^verbatim>\<open>\b\<close>. The matcher below is
  Python's backtracking matcher for this fragment: it lists every way a pattern can
  match at a position, in the order in which backtracking tries them (greedy repetition
  gives the longest run first), so the head of the list is the match Python reports.
\<close>

datatype cclass = Whitespace | Not_char char | Lower_underscore

fun in_class :: "cclass \<Rightarrow> char \<Rightarrow> bool" where
  "in_class Whitespace c = is_space c"
| "in_class (Not_char x) c = (c \<noteq> x)"
| "in_class Lower_underscore c = (c \<in> set ''abcdefghijklmnopqrstuvwxyz_'')"

datatype regex =
    Lit string
  | Star cclass
  | Plus cclass
  | Opt regex
  | Seq regex regex
  | Group nat regex
  | Backref nat
  | Word_boundary

text \<open>
  A cursor is a position in the subject string: the text passed, the text ahead and
  the capture groups set so far.
\<close>

record cursor =
  passed :: string
  ahead :: string
  groups :: "nat \<Rightarrow> string option"

definition consume :: "nat \<Rightarrow> cursor \<Rightarrow> cursor" where
  "consume n st = st\<lparr>passed := passed st @ take n (ahead st), ahead := drop n (ahead st)\<rparr>"

definition greedy :: "cclass \<Rightarrow> nat \<Rightarrow> cursor \<Rightarrow> cursor list" where
  "greedy k lo st =
     map (\<lambda>n. consume n st) (rev [lo ..< Suc (length (takeWhile (in_class k) (ahead st)))])"

definition at_boundary :: "cursor \<Rightarrow> bool" where
  "at_boundary st =
     ((passed st \<noteq> [] \<and> is_word (last (passed st))) \<noteq>
      (ahead st \<noteq> [] \<and> is_word (hd (ahead st))))"

fun matches :: "regex \<Rightarrow> cursor \<Rightarrow> cursor list" where
  "matches (Lit s) st = (if prefix s (ahead st) then [consume (length s) st] else [])"
| "matches (Star k) st = greedy k 0 st"
| "matches (Plus k) st = greedy k 1 st"
| "matches (Opt r) st = matches r st @ [st]"
| "matches (Seq a b) st = concat (map (matches b) (matches a st))"
| "matches (Group n r) st =
     map (\<lambda>st'. st'\<lparr>groups := (groups st')(n \<mapsto> drop (length (passed st)) (passed st'))\<rparr>)
       (matches r st)"
| "matches (Backref n) st =
     (case groups st n of
        None \<Rightarrow> []
      | Some g \<Rightarrow> if prefix g (ahead st) then [consume (length g) st] else [])"
| "matches Word_boundary st = (if at_boundary st then [st] else [])"

text \<open>
  One attempt at a start position. After an empty match \<^verbatim>\<open>re.sub\<close> searches again from
  the same position and then refuses a match that ends where the search started
  (\<open>adv\<close>); this holds for the first start position of a search only.
\<close>

definition attempts :: "regex \<Rightarrow> bool \<Rightarrow> string \<Rightarrow> string \<Rightarrow> cursor list" where
  "attempts r adv l rt =
     filter (\<lambda>m. \<not> adv \<or> passed m \<noteq> l)
       (matches r \<lparr>passed = l, ahead = rt, groups = Map.empty\<rparr>)"

text \<open>
  The leftmost match at or after the current position: the text to the left of the
  match's start and the cursor at its end.
\<close>

fun search :: "regex \<Rightarrow> bool \<Rightarrow> string \<Rightarrow> string \<Rightarrow> (string \<times> cursor) option" where
  "search r adv l [] =
     (case attempts r adv l [] of [] \<Rightarrow> None | m # _ \<Rightarrow> Some (l, m))"
| "search r adv l (c # cs) =
     (case attempts r adv l (c # cs) of
        [] \<Rightarrow> search r False (l @ [c]) cs
      | m # _ \<Rightarrow> Some (l, m))"

text \<open>
  Every way of matching moves the cursor forward over the subject and leaves the
  subject as it is. The substitution loop below terminates for this reason.
\<close>

lemma matches_subject:
  "m \<in> set (matches r st) \<Longrightarrow> \<exists>w. passed m = passed st @ w \<and> ahead st = w @ ahead m"
proof (induction r arbitrary: st m)
  case (Seq a b)
  then obtain mid where mid: "mid \<in> set (matches a st)" and m: "m \<in> set (matches b mid)"
    by auto
  from Seq.IH(1)[OF mid] Seq.IH(2)[OF m] show ?case by auto
next
  case (Opt r)
  then show ?case by auto
next
  case (Group n r)
  then show ?case by auto
qed (auto simp: consume_def greedy_def split: if_splits option.splits)

lemma attempts_subject:
  "m \<in> set (attempts r adv l rt) \<Longrightarrow>
     (\<exists>w. passed m = l @ w \<and> rt = w @ ahead m) \<and> (adv \<longrightarrow> passed m \<noteq> l)"
  using matches_subject[of m r "\<lparr>passed = l, ahead = rt, groups = Map.empty\<rparr>"]
  by (auto simp: attempts_def)

lemma search_subject:
  "search r adv l rt = Some (l0, m) \<Longrightarrow>
     (\<exists>sk w. l0 = l @ sk \<and> passed m = l0 @ w \<and> rt = sk @ w @ ahead m)
     \<and> (adv \<longrightarrow> passed m \<noteq> l)"
proof (induction r adv l rt rule: search.induct)
  case (1 r adv l)
  then show ?case
    using attempts_subject[of m r adv l "[]"] by (auto split: list.splits)
next
  case (2 r adv l c cs)
  show ?case
  proof (cases "attempts r adv l (c # cs)")
    case Nil
    with 2 show ?thesis by (auto split: list.splits)
  next
    case (Cons a as)
    with 2 have "l0 = l" "m = a" by auto
    with Cons show ?thesis
      using attempts_subject[of m r adv l "c # cs"] by auto
  qed
qed

text \<open>
  \<^verbatim>\<open>re.subn(pattern, repl, s)\<close>: the matches are found from the left and do not
  overlap; the text between them is copied, each match is replaced by what \<open>repl\<close>
  gives for it (a function of the matched text, group 0, and of the capture groups),
  and the number of replacements is returned with the new string.
\<close>

type_synonym repl = "string \<Rightarrow> (nat \<Rightarrow> string option) \<Rightarrow> string"

function subn_from :: "regex \<Rightarrow> repl \<Rightarrow> bool \<Rightarrow> string \<Rightarrow> string \<Rightarrow> string \<times> nat" where
  "subn_from r f adv l rt =
     (case search r adv l rt of
        None \<Rightarrow> (rt, 0)
      | Some (l0, m) \<Rightarrow>
          (let (out, n) = subn_from r f (passed m = l0) (passed m) (ahead m)
           in (drop (length l) l0 @ f (drop (length l0) (passed m)) (groups m) @ out, Suc n)))"
  by pat_completeness auto
termination
proof (relation "measure (\<lambda>(r, f, adv, l, rt). 2 * length rt + (if adv then 0 else 1))", goal_cases)
  case 1
  show ?case by simp
next
  case (2 r f adv l rt x2 l0 m)
  then have s: "search r adv l rt = Some (l0, m)" by simp
  from search_subject[OF s] obtain sk w where
    l0: "l0 = l @ sk" and pm: "passed m = l0 @ w" and rt: "rt = sk @ w @ ahead m"
    and adv: "adv \<longrightarrow> passed m \<noteq> l"
    by blast
  show ?case
  proof (cases "sk = [] \<and> w = []")
    case True
    with l0 pm adv have "\<not> adv" by auto
    with True l0 pm rt show ?thesis by simp
  next
    case False
    then have "length (ahead m) < length rt" using rt by (cases sk; cases w) auto
    then show ?thesis by simp
  qed
qed

definition re_subn :: "regex \<Rightarrow> repl \<Rightarrow> string \<Rightarrow> string \<times> nat" where
  "re_subn r f s = subn_from r f False [] s"

definition re_sub :: "regex \<Rightarrow> repl \<Rightarrow> string \<Rightarrow> string" where
  "re_sub r f s = fst (re_subn r f s)"

text \<open>A replacement template refers to a group that did not take part as to the empty string.\<close>

definition grp :: "(nat \<Rightarrow> string option) \<Rightarrow> nat \<Rightarrow> string" where
  "grp g n = (case g n of None \<Rightarrow> [] | Some s \<Rightarrow> s)"

section \<open>Files and output\<close>

text \<open>
  What the fixers see of their environment. Reading a file gives its text or raises an
  exception, of which only the message is kept (\<open>Inl\<close>); a write succeeds or raises
  likewise. The writes that were carried out are logged, so that "the file was written"
  is a fact about the final state.
\<close>

text \<open>
  A line printed. The status lines of the scripts start with a symbol outside the
  range of \<^typ>\<open>char\<close>, so each \<^verbatim>\<open>print\<close> of a status line is kept as a constructor
  with the values it formats; \<open>Text\<close> is a line of plain text.
\<close>

datatype message =
    Text string
  | Fixed_assertions string nat
  | Summary_assertions nat nat
  | Fixed_imports string
  | Summary_imports nat
  | Finding_errors
  | No_errors_found
  | Found_errors nat
  | Fixing_file string nat
  | Fixed_files nat
  | Rerun_hint

record world =
  file_exists :: "string \<Rightarrow> bool"
  read_text :: "string \<Rightarrow> string + string"
  write_fault :: "string \<Rightarrow> string option"
  written :: "(string \<times> string) list"
  stdout :: "message list"
  stderr :: "message list"

definition write_text :: "world \<Rightarrow> string \<Rightarrow> string \<Rightarrow> string + world" where
  "write_text w path content =
     (case write_fault w path of
        Some msg \<Rightarrow> Inl msg
      | None \<Rightarrow> Inr (w\<lparr>read_text := (read_text w)(path := Inr content),
                        written := written w @ [(path, content)]\<rparr>))"

definition print_out :: "message \<Rightarrow> world \<Rightarrow> world" where
  "print_out m w = w\<lparr>stdout := stdout w @ [m]\<rparr>"

definition print_err :: "message \<Rightarrow> world \<Rightarrow> world" where
  "print_err m w = w\<lparr>stderr := stderr w @ [m]\<rparr>"

section \<open>fix-assertions.py\<close>

text \<open>A pattern written as the sequence of its parts, in the order of the source.\<close>

fun seq :: "regex list \<Rightarrow> regex" where
  "seq [] = Lit []"
| "seq [r] = r"
| "seq (r # rs) = Seq r (seq rs)"

definition quote :: string where
  "quote = [CHR 0x27]"

text \<open>
  The part the three patterns share:
  \<^verbatim>\<open>(\)) as \{ data: Row<'([^']+)'>(\[\])? \| null; error: any \}\s*\n(\s*)\<close>
\<close>

definition assertion_block :: "regex list" where
  "assertion_block =
     [Group 1 (Lit '')''), Lit ('' as { data: Row<'' @ quote), Group 2 (Plus (Not_char (CHR 0x27))),
      Lit (quote @ ''>''), Opt (Group 3 (Lit ''[]'')), Lit '' | null; error: any }'',
      Star Whitespace, Lit ''\<newline>'', Group 4 (Star Whitespace)]"

definition pattern1 :: regex where
  "pattern1 = seq (assertion_block @
     [Lit (''.single() as { data: Row<'' @ quote), Backref 2, Lit (quote @ ''> | null; error: any }'')])"

definition replacement1 :: repl where
  "replacement1 = (\<lambda>_ g. grp g 1 @ ''\<newline>'' @ grp g 4 @ ''.single() as { data: Row<'' @ quote
     @ grp g 2 @ quote @ ''> | null; error: any }'')"

definition methods :: "string list" where
  "methods = [''or'', ''order'', ''limit'', ''range'', ''gte'', ''lte'', ''gt'', ''lt'', ''not'',
     ''in'', ''contains'', ''filter'']"

definition pattern2 :: "string \<Rightarrow> regex" where
  "pattern2 method = seq (assertion_block @ [Lit (''.'' @ method @ ''('')])"

definition replacement2 :: "string \<Rightarrow> repl" where
  "replacement2 method = (\<lambda>_ g. grp g 1 @ ''\<newline>'' @ grp g 4 @ ''.'' @ method @ ''('')"

definition pattern3 :: regex where
  "pattern3 = seq (assertion_block @ [Group 5 (seq [Lit ''.'', Plus Lower_underscore, Lit ''(''])])"

definition allowed_calls :: "string list" where
  "allowed_calls = [''.or('', ''.order('', ''.limit('', ''.range('', ''.gte('', ''.lte('', ''.gt('',
     ''.lt('', ''.not('', ''.in('', ''.contains('', ''.filter('']"

text \<open>
  \<^verbatim>\<open>check_and_replace(match)\<close>. Groups 1, 4 and 5 take part in every match of
  \<^verbatim>\<open>pattern3\<close>; group 3 is the optional array suffix (\<^verbatim>\<open>match.group(3) or ''\<close>).
\<close>

definition check_and_replace :: repl where
  "check_and_replace = (\<lambda>whole g.
     let paren = grp g 1; array = grp g 3; indent = grp g 4; next_method = grp g 5 in
     if next_method = ''.single('' \<and> array \<noteq> [] then paren @ ''\<newline>'' @ indent @ next_method
     else if \<exists>p \<in> set allowed_calls. prefix p next_method
       then paren @ ''\<newline>'' @ indent @ next_method
     else whole)"

text \<open>One turn of the loop over \<^verbatim>\<open>methods\<close>: the content and the number of fixes so far.\<close>

definition method_step :: "string \<times> nat \<Rightarrow> string \<Rightarrow> string \<times> nat" where
  "method_step acc method =
     (let (content, count) = re_subn (pattern2 method) (replacement2 method) (fst acc)
      in (content, snd acc + count))"

text \<open>The rewriting of \<^verbatim>\<open>fix_file\<close>, from the content read to the content compared with it.\<close>

definition fix_assertions_content :: "string \<Rightarrow> string \<times> nat" where
  "fix_assertions_content original =
     (let (content1, count1) = re_subn pattern1 replacement1 original;
          (content2, fixes2) = foldl method_step (content1, 0 + count1) methods;
          (content3, count3) = re_subn pattern3 check_and_replace content2
      in (content3, fixes2 + count3))"

text \<open>\<^verbatim>\<open>fix_file(filepath)\<close> of fix-assertions.py: the pair returned and the state left.\<close>

definition fix_file_assertions :: "world \<Rightarrow> string \<Rightarrow> (bool \<times> nat) \<times> world" where
  "fix_file_assertions w filepath =
     (case read_text w filepath of
        Inl e \<Rightarrow> ((False, 0), print_err (Text (''Error processing '' @ filepath @ '': '' @ e)) w)
      | Inr original \<Rightarrow>
          (let (content, fixes) = fix_assertions_content original in
           if content \<noteq> original then
             (case write_text w filepath content of
                Inl e \<Rightarrow>
                  ((False, 0), print_err (Text (''Error processing '' @ filepath @ '': '' @ e)) w)
              | Inr w' \<Rightarrow> ((True, fixes), w'))
           else ((False, 0), w)))"

text \<open>
  The loop of \<^verbatim>\<open>main\<close> over the files, with the running totals
  \<^verbatim>\<open>(total_fixed, total_files)\<close>.
\<close>

fun assertions_loop :: "world \<Rightarrow> nat \<times> nat \<Rightarrow> string list \<Rightarrow> (nat \<times> nat) \<times> world" where
  "assertions_loop w totals [] = (totals, w)"
| "assertions_loop w totals (filepath # files) =
     (if \<not> file_exists w filepath then assertions_loop w totals files
      else
        (let ((fixed, count), w1) = fix_file_assertions w filepath in
         if fixed
           then assertions_loop (print_out (Fixed_assertions filepath count) w1)
                  (fst totals + count, snd totals + 1) files
           else assertions_loop w1 totals files))"

text \<open>
  \<^verbatim>\<open>main()\<close>: \<open>argv\<close> are the command-line arguments after the script's name and
  \<open>lib\<close> is what the directory \<^verbatim>\<open>lib\<close> holds: \<open>None\<close> when it does not exist, else the
  \<^verbatim>\<open>*.ts\<close> files found under it. The exit status is returned.
\<close>

definition main_assertions :: "world \<Rightarrow> string list \<Rightarrow> string list option \<Rightarrow> int \<times> world" where
  "main_assertions w argv lib =
     (case lib of
        None \<Rightarrow> (1, print_err (Text ''Error: lib/ directory not found'') w)
      | Some found \<Rightarrow>
          (let files = (if argv \<noteq> [] then argv else found);
               ((total_fixed, total_files), w1) = assertions_loop w (0, 0) files
           in (0, print_out (Summary_assertions total_fixed total_files) w1)))"

section \<open>fix-final-imports.py\<close>

definition helpers_import :: string where
  "helpers_import = ''import type { Row } from '@/lib/supabase/helpers'' @ [CHR 0x27]"

definition imports_pattern1 :: regex where
  "imports_pattern1 =
     Seq (Lit ''import {'') (Seq (Star Whitespace) (Seq (Lit ''\<newline>'') (Lit helpers_import)))"

definition imports_replacement1 :: repl where
  "imports_replacement1 = (\<lambda>_ _. helpers_import @ ''\<newline>import {'')"

definition fix_imports_content :: "string \<Rightarrow> string" where
  "fix_imports_content content = re_sub imports_pattern1 imports_replacement1 content"

text \<open>\<^verbatim>\<open>fix_file(filepath)\<close> of fix-final-imports.py; its error line goes to standard output.\<close>

definition fix_file_imports :: "world \<Rightarrow> string \<Rightarrow> bool \<times> world" where
  "fix_file_imports w filepath =
     (case read_text w filepath of
        Inl e \<Rightarrow> (False, print_out (Text (''Error processing '' @ filepath @ '': '' @ e)) w)
      | Inr original \<Rightarrow>
          (let content = fix_imports_content original in
           if content \<noteq> original then
             (case write_text w filepath content of
                Inl e \<Rightarrow> (False, print_out (Text (''Error processing '' @ filepath @ '': '' @ e)) w)
              | Inr w' \<Rightarrow> (True, w'))
           else (False, w)))"

fun imports_loop :: "world \<Rightarrow> nat \<Rightarrow> string list \<Rightarrow> nat \<times> world" where
  "imports_loop w fixed_count [] = (fixed_count, w)"
| "imports_loop w fixed_count (filepath # files) =
     (let (fixed, w1) = fix_file_imports w filepath in
      if fixed then imports_loop (print_out (Fixed_imports filepath) w1) (fixed_count + 1) files
      else imports_loop w1 fixed_count files)"

definition main_imports :: "world \<Rightarrow> string list option \<Rightarrow> int \<times> world" where
  "main_imports w lib =
     (case lib of
        None \<Rightarrow> (1, print_out (Text ''Error: lib/ directory not found'') w)
      | Some files \<Rightarrow>
          (let (fixed_count, w1) = imports_loop w 0 files
           in (0, print_out (Summary_imports fixed_count) w1)))"


section \<open>fix-ts18046.py\<close>

text \<open>
  A diagnostic as \<^verbatim>\<open>read_errors\<close> returns it. The line and the column are parsed
  from digits, so they are natural numbers.
\<close>

record ts_error =
  e_file :: string
  e_line :: nat
  e_col :: nat
  e_var :: string

text \<open>
  The patterns of \<^verbatim>\<open>fix_file\<close> are formed by putting \<^verbatim>\<open>var_name\<close> into the pattern
  text. For a name made of word characters the pattern reads the name as literal text,
  which is how it is modelled; the theorems that depend on these patterns are stated
  for such names.
\<close>

definition plain_name :: "string \<Rightarrow> bool" where
  "plain_name v = (v \<noteq> [] \<and> (\<forall>c \<in> set v. c \<in> set ascii_word_chars))"

definition paren_arrow :: "string \<Rightarrow> regex" where
  "paren_arrow var_name = seq [Lit ''('', Lit var_name, Star Whitespace, Lit ''=>'']"

definition bare_arrow :: "string \<Rightarrow> regex" where
  "bare_arrow var_name = seq [Word_boundary, Lit var_name, Star Whitespace, Lit ''=>'']"

definition access :: "string \<Rightarrow> regex" where
  "access var_name = seq [Word_boundary, Lit var_name, Lit ''.'']"

definition error_names :: "string list" where
  "error_names = [''error'', ''err'', ''e'']"

text \<open>
  The body of the loop of \<^verbatim>\<open>fix_file\<close> from the line read to the line stored: the new
  line, and whether \<^verbatim>\<open>modified\<close> was set.
\<close>

definition fix_line :: "string \<Rightarrow> string \<Rightarrow> string \<times> bool" where
  "fix_line line var_name =
     (if var_name \<in> set error_names then
        (if str_in (var_name @ ''.message'') line
            \<and> \<not> str_in (''('' @ var_name @ '' as Error)'') line
           then (str_replace (var_name @ ''.message'') (''('' @ var_name @ '' as Error).message'') line,
                 True)
         else if str_in (var_name @ ''.'') line
            \<and> \<not> str_in (''('' @ var_name @ '' as Error)'') line
            \<and> \<not> str_in (''('' @ var_name @ '' as any)'') line
           then (re_sub (access var_name) (\<lambda>_ _. ''('' @ var_name @ '' as Error).'') line, True)
         else (line, False))
      else if str_in ''.map('' line \<or> str_in ''.filter('' line \<or> str_in ''.forEach('' line then
        (if \<not> str_in (var_name @ '': any'') line
           then (re_sub (bare_arrow var_name) (\<lambda>_ _. ''('' @ var_name @ '': any) =>'')
                   (re_sub (paren_arrow var_name) (\<lambda>_ _. ''('' @ var_name @ '': any =>'') line),
                 True)
         else (line, False))
      else if str_in (var_name @ ''.'') line \<and> \<not> str_in (''('' @ var_name @ '' as any)'') line
        then (re_sub (access var_name) (\<lambda>_ _. ''('' @ var_name @ '' as any).'') line, True)
      else (line, False))"

text \<open>
  The loop over \<^verbatim>\<open>file_errors\<close>. \<^verbatim>\<open>lines[line_idx]\<close> with a negative index counts from
  the end of the list and raises \<^verbatim>\<open>IndexError\<close> when that is out of range too; the
  message of the exception is returned (\<open>Inl\<close>).
\<close>

fun fix_errors :: "string list \<Rightarrow> bool \<Rightarrow> ts_error list \<Rightarrow> string + (string list \<times> bool)" where
  "fix_errors lines modified [] = Inr (lines, modified)"
| "fix_errors lines modified (error # file_errors) =
     (let line_idx = int (e_line error) - 1 in
      if line_idx \<ge> int (length lines) then fix_errors lines modified file_errors
      else
        (let j = (if line_idx < 0 then line_idx + int (length lines) else line_idx) in
         if j < 0 then Inl ''list index out of range''
         else
           (let (line, m) = fix_line (lines ! nat j) (e_var error)
            in fix_errors (lines[nat j := line]) (modified \<or> m) file_errors)))"

text \<open>\<^verbatim>\<open>f.readlines()\<close>: the lines of the text, each with its line end.\<close>

fun readlines :: "string \<Rightarrow> string list" where
  "readlines [] = []"
| "readlines (c # cs) =
     (if c = CHR 0x0A then [c] # readlines cs
      else (case readlines cs of [] \<Rightarrow> [[c]] | l # ls \<Rightarrow> (c # l) # ls))"

definition fix_file_ts18046 :: "world \<Rightarrow> string \<Rightarrow> ts_error list \<Rightarrow> bool \<times> world" where
  "fix_file_ts18046 w file_path file_errors =
     (case read_text w file_path of
        Inl e \<Rightarrow> (False, print_err (Text (''Error fixing '' @ file_path @ '': '' @ e)) w)
      | Inr original \<Rightarrow>
          (case fix_errors (readlines original) False file_errors of
             Inl e \<Rightarrow> (False, print_err (Text (''Error fixing '' @ file_path @ '': '' @ e)) w)
           | Inr (lines, modified) \<Rightarrow>
               if modified then
                 (case write_text w file_path (concat lines) of
                    Inl e \<Rightarrow> (False, print_err (Text (''Error fixing '' @ file_path @ '': '' @ e)) w)
                  | Inr w' \<Rightarrow> (True, w'))
               else (False, w)))"

text \<open>The dictionary \<^verbatim>\<open>files\<close> of \<^verbatim>\<open>main\<close>, in the order in which its keys were added.\<close>

definition add_error :: "(string \<times> ts_error list) list \<Rightarrow> ts_error \<Rightarrow> (string \<times> ts_error list) list" where
  "add_error files error =
     (let files1 = (if e_file error \<notin> fst ` set files then files @ [(e_file error, [])] else files)
      in map (\<lambda>(k, es). if k = e_file error then (k, es @ [error]) else (k, es)) files1)"

fun ts18046_loop :: "world \<Rightarrow> nat \<Rightarrow> (string \<times> ts_error list) list \<Rightarrow> nat \<times> world" where
  "ts18046_loop w fixed_count [] = (fixed_count, w)"
| "ts18046_loop w fixed_count ((file_path, file_errors) # files) =
     (let (fixed, w1) =
        fix_file_ts18046 (print_out (Fixing_file file_path (length file_errors)) w) file_path file_errors
      in ts18046_loop w1 (if fixed then fixed_count + 1 else fixed_count) files)"

text \<open>\<^verbatim>\<open>main()\<close>, from the list \<^verbatim>\<open>read_errors()\<close> returned.\<close>

definition main_ts18046 :: "world \<Rightarrow> ts_error list \<Rightarrow> world" where
  "main_ts18046 w errors =
     (let w0 = print_out Finding_errors w in
      if errors = [] then print_out No_errors_found w0
      else
        (let w1 = print_out (Found_errors (length errors)) w0;
             files = foldl add_error [] errors;
             (fixed_count, w2) = ts18046_loop w1 0 files
         in print_out Rerun_hint (print_out (Fixed_files fixed_count) w2)))"

section \<open>Notions used by the claims\<close>




text \<open>
  An environment given by the files it holds (the text of each, or the message of the
  exception that reading it raises) and by the paths that cannot be written.
\<close>

definition world_of :: "(string \<times> (string + string)) list \<Rightarrow> (string \<times> string) list \<Rightarrow> world" where
  "world_of files faults =
     \<lparr>file_exists = (\<lambda>p. p \<in> fst ` set files),
      read_text = (\<lambda>p. case map_of files p of Some r \<Rightarrow> r | None \<Rightarrow> Inl ''No such file or directory''),
      write_fault = map_of faults,
      written = [], stdout = [], stderr = []\<rparr>"












section \<open>Facts about text\<close>



section \<open>Facts about the unknown-type fixer\<close>




section \<open>Facts about matching and substitution\<close>

declare subn_from.simps [simp del]


























lemma newline_is_space: "is_space (CHR 0x0A)"
  by (simp add: is_space_def space_chars_def)


















section \<open>The claims\<close>

text \<open>
  C8. Assertion cleanup, scenario 1: the line
  \<^verbatim>\<open>.eq('id', id) as { data: Row<'users'>[] | null; error: any }\<close> followed by the line
  \<^verbatim>\<open>  .single() as { data: Row<'users'> | null; error: any }\<close> is rewritten to
  \<^verbatim>\<open>.eq('id', id)\<close> followed by the second line, which is unchanged; one fix is counted.
\<close>

theorem scenario_assertion_before_single:
  "fix_assertions_content
     (''.eq('id', id) as { data: Row<'users'>[] | null; error: any }'' @ ''\<newline>'' @
      ''  .single() as { data: Row<'users'> | null; error: any }'')
   = (''.eq('id', id)'' @ ''\<newline>'' @
      ''  .single() as { data: Row<'users'> | null; error: any }'', 1)"
  by code_simp

text \<open>
  C1. Unknown-type fixer, callback parameters. On the line \<^verbatim>\<open>items.map(x => x.id)\<close> with
  the identifier \<^verbatim>\<open>x\<close> the first substitution takes the parenthesis of the call for
  the parameter's own, and the line becomes \<^verbatim>\<open>items.map(x: any => x.id)\<close>, not
  \<^verbatim>\<open>items.map((x: any) => x.id)\<close>. A parameter already in parentheses,
  \<^verbatim>\<open>(x) =>\<close>, is matched by neither substitution and stays without annotation. The
  annotated form \<^verbatim>\<open>(x: any) =>\<close> results when the bare parameter does not follow an
  opening parenthesis directly.
\<close>

theorem callback_annotation_evaluated:
  "fix_line ''items.map(x => x.id)'' ''x'' = (''items.map(x: any => x.id)'', True)
   \<and> fix_line ''items.map((x) => x.id)'' ''x'' = (''items.map((x) => x.id)'', True)
   \<and> fix_line ''items.map( x => x.id)'' ''x'' = (''items.map( (x: any) => x.id)'', True)"
  by code_simp

text \<open>
  C3. Assertion cleanup before \<^verbatim>\<open>.single()\<close> with two different tables. The array-typed
  assertion for the table \<^verbatim>\<open>users\<close> is followed by \<^verbatim>\<open>.single()\<close> with an assertion for
  the table \<^verbatim>\<open>posts\<close>. The first pattern does not match, its back-reference asks for
  the same table; the third pattern matches and \<^verbatim>\<open>check_and_replace\<close> removes the
  block without looking at the table that follows.
\<close>

theorem diverging_tables_evaluated:
  "fix_assertions_content
     (''.eq('id', id) as { data: Row<'users'>[] | null; error: any }'' @ ''\<newline>'' @
      ''  .single() as { data: Row<'posts'> | null; error: any }'')
   = (''.eq('id', id)'' @ ''\<newline>'' @
      ''  .single() as { data: Row<'posts'> | null; error: any }'', 1)"
  by code_simp



text \<open>
  C10. A diagnostic whose line number is greater than the number of lines of the file
  is skipped: the loop goes on with the lines and the flag as they were, and alone it
  leaves the lines unchanged without an error. A diagnostic with line number 0 is not
  skipped: its index \<open>-1\<close> selects the last line, which is rewritten as any other line
  would be. (When the file has no line at all, that index is out of range and the loop
  ends with \<^verbatim>\<open>IndexError\<close>.)
\<close>

theorem out_of_range_lines:
  "(length lines < e_line error \<longrightarrow>
      fix_errors lines modified (error # errors) = fix_errors lines modified errors
      \<and> fix_errors lines modified [error] = Inr (lines, modified))
   \<and> (e_line error = 0 \<and> lines \<noteq> [] \<longrightarrow>
      fix_errors lines modified (error # errors) =
        fix_errors (lines[length lines - 1 := fst (fix_line (last lines) (e_var error))])
          (modified \<or> snd (fix_line (last lines) (e_var error))) errors)
   \<and> (e_line error = 0 \<and> lines = [] \<longrightarrow>
      fix_errors lines modified (error # errors) = Inl ''list index out of range'')
   \<and> (read_text w p = Inr original \<and> length (readlines original) < e_line error \<longrightarrow>
      fix_file_ts18046 w p [error] = (False, w))"
proof -
  have skip: "fix_errors lines modified (error # errors) = fix_errors lines modified errors
      \<and> fix_errors lines modified [error] = Inr (lines, modified)"
    if "length lines < e_line error"
    using that by (simp add: Let_def)
  have wrap: "fix_errors lines modified (error # errors) =
        fix_errors (lines[length lines - 1 := fst (fix_line (last lines) (e_var error))])
          (modified \<or> snd (fix_line (last lines) (e_var error))) errors"
    if a: "e_line error = 0 \<and> lines \<noteq> []"
  proof -
    from a have n: "nat (int (length lines) - 1) = length lines - 1" by simp
    from a have l: "lines ! (length lines - Suc 0) = last lines" by (simp add: last_conv_nth)
    from a show ?thesis by (simp add: Let_def n l case_prod_unfold)
  qed
  have raise: "fix_errors lines modified (error # errors) = Inl ''list index out of range''"
    if "e_line error = 0 \<and> lines = []"
    using that by (simp add: Let_def)
  have unchanged: "fix_file_ts18046 w p [error] = (False, w)"
    if "read_text w p = Inr original \<and> length (readlines original) < e_line error"
    using that by (simp add: fix_file_ts18046_def Let_def)
  from skip wrap raise unchanged show ?thesis by blast
qed

theorem out_of_range_lines_witness:
  "length [''a.b\<newline>'', ''c.d\<newline>''] < e_line \<lparr>e_file = ''f.ts'', e_line = 3, e_col = 1, e_var = ''c''\<rparr>
   \<and> fix_errors [''a.b\<newline>'', ''c.d\<newline>''] False
        [\<lparr>e_file = ''f.ts'', e_line = 3, e_col = 1, e_var = ''c''\<rparr>]
      = Inr ([''a.b\<newline>'', ''c.d\<newline>''], False)
   \<and> e_line \<lparr>e_file = ''f.ts'', e_line = 0, e_col = 1, e_var = ''c''\<rparr> = 0
   \<and> [''a.b\<newline>'', ''c.d\<newline>''] \<noteq> []
   \<and> fix_errors [''a.b\<newline>'', ''c.d\<newline>''] False
        [\<lparr>e_file = ''f.ts'', e_line = 0, e_col = 1, e_var = ''c''\<rparr>]
      = Inr ([''a.b\<newline>'', ''(c as any).d\<newline>''], True)
   \<and> fix_errors [] False [\<lparr>e_file = ''f.ts'', e_line = 0, e_col = 1, e_var = ''c''\<rparr>]
      = Inl ''list index out of range''
   \<and> read_text (world_of [(''f.ts'', Inr ''a.b\<newline>c.d\<newline>'')] []) ''f.ts''
      = Inr ''a.b\<newline>c.d\<newline>''
   \<and> length (readlines ''a.b\<newline>c.d\<newline>'')
      < e_line \<lparr>e_file = ''f.ts'', e_line = 3, e_col = 1, e_var = ''c''\<rparr>
   \<and> fix_file_ts18046 (world_of [(''f.ts'', Inr ''a.b\<newline>c.d\<newline>'')] []) ''f.ts''
        [\<lparr>e_file = ''f.ts'', e_line = 3, e_col = 1, e_var = ''c''\<rparr>]
      = (False, world_of [(''f.ts'', Inr ''a.b\<newline>c.d\<newline>'')] [])"
proof -
  have l: "fix_line ''c.d\<newline>'' ''c'' = (''(c as any).d\<newline>'', True)" by code_simp
  have r: "read_text (world_of [(''f.ts'', Inr ''a.b\<newline>c.d\<newline>'')] []) ''f.ts''
      = Inr ''a.b\<newline>c.d\<newline>''"
    by (simp add: world_of_def)
  show ?thesis
    using out_of_range_lines[where lines = "[''a.b\<newline>'', ''c.d\<newline>'']"
            and error = "\<lparr>e_file = ''f.ts'', e_line = 3, e_col = 1, e_var = ''c''\<rparr>"
            and modified = False and errors = "[]"
            and w = "world_of [(''f.ts'', Inr ''a.b\<newline>c.d\<newline>'')] []" and p = "''f.ts''"
            and original = "''a.b\<newline>c.d\<newline>''"]
      out_of_range_lines[where lines = "[''a.b\<newline>'', ''c.d\<newline>'']"
            and error = "\<lparr>e_file = ''f.ts'', e_line = 0, e_col = 1, e_var = ''c''\<rparr>"
            and modified = False and errors = "[]"]
      out_of_range_lines[where lines = "[]"
            and error = "\<lparr>e_file = ''f.ts'', e_line = 0, e_col = 1, e_var = ''c''\<rparr>"
            and modified = False and errors = "[]"]
    by (simp add: l r)
qed












end
